theory Spec2Isabelle
  imports Main
begin

unbundle bit_operations_syntax

section \<open>The drawing module \<open>pygame/draw.py\<close>\<close>

text \<open>
  A shallow embedding of \<open>src/pygame/draw.py\<close>. Python integers are \<open>int\<close>.
  Coordinates, widths and pixel values are integers, as the docstrings of the
  module declare them (\<open>start_pos : int, int\<close>, \<open>pointlist : list of (int, int)\<close>,
  \<open>width : int\<close>).

  The module computes slopes and intercepts in Python floats. Their arithmetic is
  not fixed here: every float operation of the module is a parameter of the model
  (the record \<open>arith\<close> below), so that each theorem holds whatever the floating
  point rounds to and wherever it raises.
\<close>

subsection \<open>Errors\<close>

text \<open>
  What a float operation can raise: the division by a zero float, the conversion
  of an integer too large for a float or of an infinite float to an integer, and
  the conversion of a float that is not a number.
\<close>

datatype arith_error = ZeroDivisionError | OverflowError | FloatValueError

text \<open>
  The exceptions of the module: the string exception \<open>'invalid color argument'\<close>
  of \<open>_get_color\<close>, \<open>ValueError\<close> for too few points, \<open>NotImplementedError\<close> for
  3-byte pixels, the \<open>assert\<close> of the polygon fill, and what the arithmetic raises.
\<close>

datatype error =
    InvalidColor
  | ValueError
  | NotImplementedError
  | AssertionError
  | Arithmetic arith_error

text \<open>Sequencing of steps that may raise: the first exception ends the run.\<close>

definition or_raise :: "arith_error + 'a \<Rightarrow> ('a \<Rightarrow> error + 'b) \<Rightarrow> error + 'b" where
  "or_raise m f = (case m of Inl e \<Rightarrow> Inl (Arithmetic e) | Inr v \<Rightarrow> f v)"

definition and_then :: "error + 'a \<Rightarrow> ('a \<Rightarrow> error + 'b) \<Rightarrow> error + 'b" where
  "and_then m f = (case m of Inl e \<Rightarrow> Inl e | Inr v \<Rightarrow> f v)"

subsection \<open>Float arithmetic as a parameter\<close>

text \<open>
  A Python number held in a variable of the module that starts as an integer and
  becomes a float once a float is added to it (the x-intercept of a polygon edge).
\<close>

datatype 'f number = PyInt int | PyFloat 'f

text \<open>
  The float operations the module performs, over an arbitrary type \<open>'f\<close> of float
  values:
  \<^item> \<open>fl_quot a b\<close> is \<open>a / float(b)\<close> for integers \<open>a\<close>, \<open>b\<close>;
  \<^item> \<open>fl_one\<close> is the literal \<open>1.0\<close>;
  \<^item> \<open>fl_int_mul a m\<close> is \<open>int(a * m)\<close> for an integer \<open>a\<close> and a float \<open>m\<close>;
  \<^item> \<open>fl_int_div a m\<close> is \<open>int(a / m)\<close> for an integer \<open>a\<close> and a float \<open>m\<close>;
  \<^item> \<open>fl_add x d\<close> is \<open>x + d\<close> for a number \<open>x\<close> and a float \<open>d\<close>;
  \<^item> \<open>fl_int x\<close> is \<open>int(x)\<close> for a float \<open>x\<close>;
  \<^item> \<open>fl_lt x y\<close> tells whether \<open>cmp(x, y)\<close> is negative, for numbers \<open>x\<close>, \<open>y\<close>.
\<close>

record 'f arith =
  fl_quot :: "int \<Rightarrow> int \<Rightarrow> arith_error + 'f"
  fl_one :: "'f"
  fl_int_mul :: "int \<Rightarrow> 'f \<Rightarrow> arith_error + int"
  fl_int_div :: "int \<Rightarrow> 'f \<Rightarrow> arith_error + int"
  fl_add :: "'f number \<Rightarrow> 'f \<Rightarrow> arith_error + 'f"
  fl_int :: "'f \<Rightarrow> arith_error + int"
  fl_lt :: "'f number \<Rightarrow> 'f number \<Rightarrow> bool"

subsection \<open>Line clipping\<close>

definition LEFT :: int where "LEFT = 1"
definition RIGHT :: int where "RIGHT = 2"
definition TOP :: int where "TOP = 4"
definition BOTTOM :: int where "BOTTOM = 8"

definition endpoint_code :: "int \<Rightarrow> int \<Rightarrow> int \<Rightarrow> int \<Rightarrow> int \<Rightarrow> int \<Rightarrow> int" where
  "endpoint_code x y l r t b =
     (let code = 0;
          code = (if x < l then code OR LEFT else code);
          code = (if y < t then code OR TOP else code);
          code = (if x > r then code OR RIGHT else code);
          code = (if y > b then code OR BOTTOM else code)
      in code)"

text \<open>
  One pass through the \<open>else\<close> branch of the loop of \<open>_clip_line\<close>: the swap that
  makes the first endpoint the one outside, the slope \<open>m\<close>, and the four clips in
  the order LEFT, RIGHT, BOTTOM, TOP, each tested on the code computed before the
  pass. Every float operation may raise, which ends the pass.
\<close>

definition clip_once ::
  "'f arith \<Rightarrow> int \<Rightarrow> int \<Rightarrow> int \<Rightarrow> int \<Rightarrow> int \<Rightarrow> int \<Rightarrow> int \<Rightarrow> int \<Rightarrow> int \<Rightarrow> int
     \<Rightarrow> error + (int \<times> int \<times> int \<times> int)" where
  "clip_once fl x1 y1 x2 y2 left right top' bottom code1 code2 =
     (let (x1, y1, x2, y2, code1) =
            (if code1 = 0 then (x2, y2, x1, y1, code2) else (x1, y1, x2, y2, code1))
      in
      or_raise (if x1 \<noteq> x2 then fl_quot fl (y2 - y1) (x2 - x1) else Inr (fl_one fl)) (\<lambda>m.
      and_then (if code1 AND LEFT \<noteq> 0
                then or_raise (fl_int_mul fl (left - x1) m) (\<lambda>d. Inr (left, y1 + d))
                else Inr (x1, y1)) (\<lambda>(x1, y1).
      and_then (if code1 AND RIGHT \<noteq> 0
                then or_raise (fl_int_mul fl (right - x1) m) (\<lambda>d. Inr (right, y1 + d))
                else Inr (x1, y1)) (\<lambda>(x1, y1).
      and_then (if code1 AND BOTTOM \<noteq> 0
                then and_then (if x1 \<noteq> x2
                               then or_raise (fl_int_div fl (bottom - y1) m) (\<lambda>d. Inr (x1 + d))
                               else Inr x1) (\<lambda>x1. Inr (x1, bottom))
                else Inr (x1, y1)) (\<lambda>(x1, y1).
      and_then (if code1 AND TOP \<noteq> 0
                then and_then (if x1 \<noteq> x2
                               then or_raise (fl_int_div fl (top' - y1) m) (\<lambda>d. Inr (x1 + d))
                               else Inr x1) (\<lambda>x1. Inr (x1, top'))
                else Inr (x1, y1)) (\<lambda>(x1, y1).
      Inr (x1, y1, x2, y2)))))))"

text \<open>
  The loop \<open>while True\<close> of \<open>_clip_line\<close>. \<open>None\<close> is a run that never returns;
  \<open>Some (Inr None)\<close> is the rejected result \<open>(None, None, None, None)\<close>.
\<close>

partial_function (option) clip_line ::
  "'f arith \<Rightarrow> int \<Rightarrow> int \<Rightarrow> int \<Rightarrow> int \<Rightarrow> int \<Rightarrow> int \<Rightarrow> int \<Rightarrow> int
     \<Rightarrow> (error + (int \<times> int \<times> int \<times> int) option) option" where
  "clip_line fl x1 y1 x2 y2 left right top' bottom =
     (let code1 = endpoint_code x1 y1 left right top' bottom;
          code2 = endpoint_code x2 y2 left right top' bottom
      in if code1 = 0 \<and> code2 = 0 then Some (Inr (Some (x1, y1, x2, y2)))
         else if code1 AND code2 \<noteq> 0 then Some (Inr None)
         else (case clip_once fl x1 y1 x2 y2 left right top' bottom code1 code2 of
                 Inl e \<Rightarrow> Some (Inl e)
               | Inr (x1', y1', x2', y2') \<Rightarrow> clip_line fl x1' y1' x2' y2' left right top' bottom))"

declare clip_line.simps [code]


subsection \<open>Surfaces, colours and rectangles\<close>

text \<open>
  \<open>SDL_Rect\<close> with its fields \<open>x\<close>, \<open>y\<close>, \<open>w\<close>, \<open>h\<close>, and the part of an SDL surface
  the module reads: the size, the pitch in bytes, the bytes per pixel, the clip
  rectangle, the mapping of the pixel format (\<open>SDL_MapRGBA\<close>, a parameter of the
  surface) and the pixel buffer. The buffer is indexed in pixel units, as the
  module indexes \<open>pixels.as_ctypes()\<close>: pixel \<open>(x, y)\<close> is at \<open>y * (pitch / BytesPerPixel) + x\<close>.
\<close>

record SDL_Rect =
  rect_x :: int
  rect_y :: int
  rect_w :: int
  rect_h :: int

record surface =
  surf_w :: int
  surf_h :: int
  pitch :: int
  BytesPerPixel :: int
  clip_rect :: SDL_Rect
  MapRGBA :: "int \<Rightarrow> int \<Rightarrow> int \<Rightarrow> int \<Rightarrow> int"
  pixels :: "int \<Rightarrow> int"

text \<open>
  A colour argument: an RGB triple, an RGBA quadruple, an integer already mapped
  to the pixel format, or any other object.
\<close>

datatype color = RGB int int int | RGBA int int int int | Mapped int | NotAColor

text \<open>
  Modelled from the spec: \<open>pygame.base._rgba_from_obj\<close>, which is not among the
  sources. A 3- or 4-channel tuple gives its four channels (alpha 255 when
  absent); anything else gives \<open>None\<close>.
\<close>

definition rgba_from_obj :: "color \<Rightarrow> (int \<times> int \<times> int \<times> int) option" where
  "rgba_from_obj c =
     (case c of RGB r g b \<Rightarrow> Some (r, g, b, 255)
              | RGBA r g b a \<Rightarrow> Some (r, g, b, a)
              | _ \<Rightarrow> None)"

definition get_color :: "color \<Rightarrow> surface \<Rightarrow> error + int" where
  "get_color color surface =
     (let color = (case rgba_from_obj color of
                     Some (r, g, b, a) \<Rightarrow> Mapped (MapRGBA surface r g b a)
                   | None \<Rightarrow> color)
      in case color of Mapped n \<Rightarrow> Inr n | _ \<Rightarrow> Inl InvalidColor)"

text \<open>
  Modelled from the spec: \<open>Rect.normalize\<close> of \<open>pygame.rect\<close>, which is not among
  the sources. A negative width or height is flipped into the origin.
\<close>

definition normalize :: "SDL_Rect \<Rightarrow> SDL_Rect" where
  "normalize r =
     (let r = (if rect_w r < 0 then r\<lparr>rect_x := rect_x r + rect_w r, rect_w := - rect_w r\<rparr> else r);
          r = (if rect_h r < 0 then r\<lparr>rect_y := rect_y r + rect_h r, rect_h := - rect_h r\<rparr> else r)
      in r)"

definition get_rect :: "SDL_Rect \<Rightarrow> SDL_Rect" where
  "get_rect rect = normalize rect"

text \<open>
  Modelled from the spec: \<open>SDL_FillRect\<close>, the fill primitive of the surface, which
  clips the rectangle to the clip rectangle and stores the pixel value in every
  pixel of the intersection; the rectangle passed is left as it is.
  \<open>fill_indices\<close> lists the buffer indices it writes.
\<close>

definition fill_indices :: "surface \<Rightarrow> SDL_Rect \<Rightarrow> int list" where
  "fill_indices s r =
     (let c = clip_rect s;
          x0 = max (rect_x r) (rect_x c);
          x1 = min (rect_x r + rect_w r) (rect_x c + rect_w c);
          y0 = max (rect_y r) (rect_y c);
          y1 = min (rect_y r + rect_h r) (rect_y c + rect_h c)
      in concat (map (\<lambda>y. map (\<lambda>x. y * (pitch s div BytesPerPixel s) + x) [x0..x1 - 1])
                     [y0..y1 - 1]))"

definition SDL_FillRect :: "surface \<Rightarrow> SDL_Rect \<Rightarrow> int \<Rightarrow> surface" where
  "SDL_FillRect s r color =
     s\<lparr>pixels := (\<lambda>i. if i \<in> set (fill_indices s r) then color else pixels s i)\<rparr>"

text \<open>
  What a drawing call leaves behind: the surface as it is when the call ends,
  and either the exception raised or the value returned (\<open>None\<close> is Python's
  \<open>None\<close>). A call that never returns is \<open>None\<close> at the outer level.
\<close>

type_synonym outcome = "(surface \<times> (error + SDL_Rect option)) option"

subsection \<open>Rectangles\<close>

definition rect :: "surface \<Rightarrow> color \<Rightarrow> SDL_Rect \<Rightarrow> int \<Rightarrow> outcome" where
  "rect surface color rect0 width =
     (case get_color color surface of
        Inl e \<Rightarrow> Some (surface, Inl e)
      | Inr color \<Rightarrow>
          let rect = get_rect rect0 in
          if width = 0 then Some (SDL_FillRect surface rect color, Inr (Some rect))
          else
            let hw = width div 2;
                r = \<lparr>rect_x = rect_x rect, rect_y = rect_y rect - hw,
                     rect_w = rect_w rect, rect_h = width\<rparr>;
                surface = SDL_FillRect surface r color;
                r = r\<lparr>rect_y := rect_y r + rect_h rect\<rparr>;
                surface = SDL_FillRect surface r color;
                r = r\<lparr>rect_x := rect_x r - hw\<rparr>;
                r = r\<lparr>rect_w := width\<rparr>;
                r = r\<lparr>rect_y := rect_y rect\<rparr>;
                r = r\<lparr>rect_h := rect_h rect + 1\<rparr>;
                surface = SDL_FillRect surface r color;
                r = r\<lparr>rect_x := rect_x r + rect_w rect\<rparr>;
                surface = SDL_FillRect surface r color
            in Some (surface, Inr (Some rect)))"

subsection \<open>Lines\<close>

text \<open>
  The pixel walk of the thin line, the loop \<open>while x < dx\<close>: it stores the colour
  at \<open>pixel\<close>, carries into the minor axis when the accumulated error exceeds
  \<open>dx\<close>, and steps along the major axis.
\<close>

function line_walk ::
  "int \<Rightarrow> int \<Rightarrow> int \<Rightarrow> int \<Rightarrow> int \<Rightarrow> int \<Rightarrow> int \<Rightarrow> int \<Rightarrow> (int \<Rightarrow> int) \<Rightarrow> (int \<Rightarrow> int)" where
  "line_walk dx dy incx incy color x y pixel pixels' =
     (if x < dx then
        let pixels' = pixels'(pixel := color);
            y = y + dy;
            (y, pixel) = (if y > dx then (y - dx, pixel + incy) else (y, pixel));
            x = x + 1;
            pixel = pixel + incx
        in line_walk dx dy incx incy color x y pixel pixels'
      else pixels')"
  by pat_completeness auto
termination
  by (relation "measure (\<lambda>(dx, dy, incx, incy, color, x, y, pixel, pixels'). nat (dx - x))")
     (auto split: if_splits)

text \<open>
  The last branch of \<open>line\<close>, for a line of width one that is neither vertical nor
  horizontal: it refuses 3-byte pixels, clips the segment to the clip rectangle
  and walks the pixels of the clipped segment in the raw buffer.
\<close>

definition line_thin ::
  "'f arith \<Rightarrow> surface \<Rightarrow> int \<Rightarrow> int \<times> int \<Rightarrow> int \<times> int \<Rightarrow> outcome" where
  "line_thin fl surface color start_pos end_pos =
     (if BytesPerPixel surface = 3 then Some (surface, Inl NotImplementedError)
      else
        let clip = clip_rect surface in
        case clip_line fl (fst start_pos) (snd start_pos) (fst end_pos) (snd end_pos)
               (rect_x clip) (rect_x clip + rect_w clip - 1)
               (rect_y clip) (rect_y clip + rect_h clip - 1) of
          None \<Rightarrow> None
        | Some (Inl e) \<Rightarrow> Some (surface, Inl e)
        | Some (Inr None) \<Rightarrow> Some (surface, Inr None)
        | Some (Inr (Some (x1, y1, x2, y2))) \<Rightarrow>
            if BytesPerPixel surface = 0 then Some (surface, Inl (Arithmetic ZeroDivisionError))
            else
              let pitch' = pitch surface div BytesPerPixel surface;
                  dx = x2 - x1;
                  dy = y2 - y1;
                  signx = 1 - (if dx < 0 then 1 else 0) * 2;
                  signy = 1 - (if dy < 0 then 1 else 0) * 2;
                  dx = signx * dx + 1;
                  dy = signy * dy + 1;
                  pixel = y1 * pitch' + x1;
                  incx = signx;
                  incy = signy * pitch';
                  (dx, dy, incx, incy) =
                    (if dx < dy then (dy, dx, incy, incx) else (dx, dy, incx, incy))
              in Some (surface\<lparr>pixels := line_walk dx dy incx incy color 0 0 pixel (pixels surface)\<rparr>,
                       Inr None))"

text \<open>
  The loop \<open>for i in range(width)\<close> of the thick line: \<open>draw\<close> is the recursive call
  \<open>line(surface, color, (x1, y1), (x2, y2), 1)\<close>, whose return value is dropped.
\<close>

primrec line_repeat ::
  "nat \<Rightarrow> (surface \<Rightarrow> int \<times> int \<Rightarrow> int \<times> int \<Rightarrow> outcome) \<Rightarrow> surface
     \<Rightarrow> int \<Rightarrow> int \<Rightarrow> int \<Rightarrow> int \<Rightarrow> int \<Rightarrow> int \<Rightarrow> outcome" where
  "line_repeat 0 draw surface x1 y1 x2 y2 xinc yinc = Some (surface, Inr None)"
| "line_repeat (Suc n) draw surface x1 y1 x2 y2 xinc yinc =
     (case draw surface (x1, y1) (x2, y2) of
        None \<Rightarrow> None
      | Some (surface, Inl e) \<Rightarrow> Some (surface, Inl e)
      | Some (surface, Inr _) \<Rightarrow>
          line_repeat n draw surface (x1 + xinc) (y1 + yinc) (x2 + xinc) (y2 + yinc) xinc yinc)"

function line ::
  "'f arith \<Rightarrow> surface \<Rightarrow> color \<Rightarrow> int \<times> int \<Rightarrow> int \<times> int \<Rightarrow> int \<Rightarrow> outcome" where
  "line fl surface color start_pos end_pos width =
     (if width < 1 then Some (surface, Inr None)
      else
        (case get_color color surface of
          Inl e \<Rightarrow> Some (surface, Inl e)
        | Inr color \<Rightarrow>
            if fst start_pos = fst end_pos then
              let y1 = min (snd start_pos) (snd end_pos);
                  y2 = max (snd start_pos) (snd end_pos);
                  r = \<lparr>rect_x = fst start_pos - width div 2, rect_y = y1,
                       rect_w = width, rect_h = y2 - y1\<rparr>
              in Some (SDL_FillRect surface r color, Inr None)
            else if snd start_pos = snd end_pos then
              let x1 = min (fst start_pos) (fst end_pos);
                  x2 = max (fst start_pos) (fst end_pos);
                  r = \<lparr>rect_x = x1, rect_y = snd start_pos - width div 2,
                       rect_w = x2 - x1, rect_h = width\<rparr>
              in Some (SDL_FillRect surface r color, Inr None)
            else if width > 1 then
              let (xinc :: int, yinc :: int) =
                    (if \<bar>fst end_pos - fst start_pos\<bar> > \<bar>snd end_pos - snd start_pos\<bar>
                     then (0, 1) else (1, 0));
                  x1 = fst start_pos - width * xinc div 2;
                  y1 = snd start_pos - width * yinc div 2;
                  x2 = fst end_pos - width * xinc div 2;
                  y2 = snd end_pos - width * yinc div 2
              in line_repeat (nat width) (\<lambda>s p q. line fl s (Mapped color) p q 1)
                   surface x1 y1 x2 y2 xinc yinc
            else line_thin fl surface color start_pos end_pos))"
  by pat_completeness auto
termination
  by (relation "measure (\<lambda>(fl, surface, color, start_pos, end_pos, width). if width > 1 then 1 else 0)")
     auto

text \<open>The loop \<open>for point in pointlist[1:]\<close> of \<open>lines\<close>; it returns the last point.\<close>

fun lines_loop ::
  "'f arith \<Rightarrow> surface \<Rightarrow> int \<Rightarrow> int \<times> int \<Rightarrow> (int \<times> int) list \<Rightarrow> int
     \<Rightarrow> (surface \<times> (error + int \<times> int)) option" where
  "lines_loop fl surface color last' [] width = Some (surface, Inr last')"
| "lines_loop fl surface color last' (point # points) width =
     (case line fl surface (Mapped color) last' point width of
        None \<Rightarrow> None
      | Some (surface, Inl e) \<Rightarrow> Some (surface, Inl e)
      | Some (surface, Inr _) \<Rightarrow> lines_loop fl surface color point points width)"

definition lines ::
  "'f arith \<Rightarrow> surface \<Rightarrow> color \<Rightarrow> bool \<Rightarrow> (int \<times> int) list \<Rightarrow> int \<Rightarrow> outcome" where
  "lines fl surface color closed' pointlist width =
     (if width < 1 then Some (surface, Inr None)
      else
        (case get_color color surface of
          Inl e \<Rightarrow> Some (surface, Inl e)
        | Inr color \<Rightarrow>
            if length pointlist < 2 then Some (surface, Inl ValueError)
            else
              (case lines_loop fl surface color (hd pointlist) (tl pointlist) width of
                 None \<Rightarrow> None
               | Some (surface, Inl e) \<Rightarrow> Some (surface, Inl e)
               | Some (surface, Inr last') \<Rightarrow>
                   if closed' then
                     (case line fl surface (Mapped color) last' (hd pointlist) width of
                        None \<Rightarrow> None
                      | Some (surface, Inl e) \<Rightarrow> Some (surface, Inl e)
                      | Some (surface, Inr _) \<Rightarrow> Some (surface, Inr None))
                   else Some (surface, Inr None))))"

subsection \<open>Polygons\<close>

text \<open>
  An edge of the fill, the list \<open>[x, y_low, y_high, dx/dy]\<close> of the module: the
  x-intercept (an integer at first, a float once advanced), the half-open span of
  scanlines and the float increment of the intercept per scanline.
\<close>

record 'f edge =
  edge_x :: "'f number"
  edge_y1 :: int
  edge_y2 :: int
  edge_inc :: "'f"

text \<open>
  The loop that builds the edge list over \<open>pointlist[1:] + [pointlist[0]]\<close>, with the
  running bounding box. Horizontal sides add no edge. The float division of a
  side may raise, which ends the loop.
\<close>

fun build_edges ::
  "'f arith \<Rightarrow> int \<times> int \<Rightarrow> (int \<times> int) list \<Rightarrow> 'f edge list \<Rightarrow> int \<Rightarrow> int \<Rightarrow> int \<Rightarrow> int
     \<Rightarrow> error + ('f edge list \<times> int \<times> int \<times> int \<times> int)" where
  "build_edges fl (x1, y1) [] edges minx maxx miny maxy = Inr (edges, minx, maxx, miny, maxy)"
| "build_edges fl (x1, y1) ((x2, y2) # points) edges minx maxx miny maxy =
     and_then
       (if y2 > y1 then
          or_raise (fl_quot fl (x2 - x1) (y2 - y1)) (\<lambda>inc.
            Inr (edges @ [\<lparr>edge_x = PyInt x1, edge_y1 = y1, edge_y2 = y2, edge_inc = inc\<rparr>],
                 min miny y1, max maxy y2))
        else if y2 < y1 then
          or_raise (fl_quot fl (x1 - x2) (y1 - y2)) (\<lambda>inc.
            Inr (edges @ [\<lparr>edge_x = PyInt x2, edge_y1 = y2, edge_y2 = y1, edge_inc = inc\<rparr>],
                 min miny y2, max maxy y1))
        else Inr (edges, miny, maxy))
       (\<lambda>(edges, miny, maxy).
          let minx = min minx (min x1 x2);
              maxx = max maxx (max x1 x2)
          in build_edges fl (x2, y2) points edges minx maxx miny maxy)"

text \<open>
  Python's \<open>list.sort\<close> with a comparison function is a stable sort: an element is
  placed behind the elements that do not compare greater.
\<close>

fun insort_lt :: "('a \<Rightarrow> 'a \<Rightarrow> bool) \<Rightarrow> 'a \<Rightarrow> 'a list \<Rightarrow> 'a list" where
  "insort_lt lt x [] = [x]"
| "insort_lt lt x (y # ys) = (if lt x y then x # y # ys else y # insort_lt lt x ys)"

definition sort_lt :: "('a \<Rightarrow> 'a \<Rightarrow> bool) \<Rightarrow> 'a list \<Rightarrow> 'a list" where
  "sort_lt lt xs = foldl (\<lambda>sorted x. insort_lt lt x sorted) [] xs"

text \<open>
  The edges of a scanline, as positions in the edge list (the module's
  \<open>scan_edges\<close> holds the edge objects themselves, so that advancing one advances
  it in \<open>edges\<close>): those whose span contains \<open>y\<close>, sorted by x-intercept.
\<close>

definition active_edges :: "'f edge list \<Rightarrow> int \<Rightarrow> nat list" where
  "active_edges edges y =
     filter (\<lambda>i. y \<ge> edge_y1 (edges ! i) \<and> y < edge_y2 (edges ! i)) [0..<length edges]"

definition scan_edges :: "'f arith \<Rightarrow> 'f edge list \<Rightarrow> int \<Rightarrow> nat list" where
  "scan_edges fl edges y =
     sort_lt (\<lambda>i j. fl_lt fl (edge_x (edges ! i)) (edge_x (edges ! j))) (active_edges edges y)"

text \<open>\<open>int(x)\<close> for a number: an integer is itself, a float is converted.\<close>

definition number_int :: "'f arith \<Rightarrow> 'f number \<Rightarrow> arith_error + int" where
  "number_int fl x = (case x of PyInt n \<Rightarrow> Inr n | PyFloat f \<Rightarrow> fl_int fl f)"

text \<open>\<open>e[0] += e[3]\<close> on the edge at position \<open>i\<close>.\<close>

definition advance :: "'f arith \<Rightarrow> 'f edge list \<Rightarrow> nat \<Rightarrow> error + 'f edge list" where
  "advance fl edges i =
     or_raise (fl_add fl (edge_x (edges ! i)) (edge_inc (edges ! i))) (\<lambda>x.
       Inr (edges[i := (edges ! i)\<lparr>edge_x := PyFloat x\<rparr>]))"

text \<open>
  The loop \<open>for i in range(0, len(scan_edges), 2)\<close>: it fills the span between the
  two edges of each pair and advances both. A last edge without a partner cannot
  occur behind the assertion. An exception leaves the surface as drawn so far.
\<close>

fun fill_spans ::
  "'f arith \<Rightarrow> surface \<Rightarrow> int \<Rightarrow> int \<Rightarrow> 'f edge list \<Rightarrow> nat list
     \<Rightarrow> surface \<times> (error + 'f edge list)" where
  "fill_spans fl surface color y edges (i # j # rest) =
     (case or_raise (number_int fl (edge_x (edges ! i))) (\<lambda>rx.
           or_raise (number_int fl (edge_x (edges ! j))) (\<lambda>x2. Inr (rx, x2 - rx))) of
        Inl e \<Rightarrow> (surface, Inl e)
      | Inr (rx, rw) \<Rightarrow>
          let surface = SDL_FillRect surface
                          \<lparr>rect_x = rx, rect_y = y, rect_w = rw, rect_h = 1\<rparr> color
          in (case and_then (advance fl edges i) (\<lambda>edges. advance fl edges j) of
                Inl e \<Rightarrow> (surface, Inl e)
              | Inr edges \<Rightarrow> fill_spans fl surface color y edges rest))"
| "fill_spans fl surface color y edges rest = (surface, Inr edges)"

text \<open>The loop \<open>for y in range(miny, maxy)\<close>, with the assertion on the edge count.\<close>

fun fill_scanlines ::
  "'f arith \<Rightarrow> surface \<Rightarrow> int \<Rightarrow> 'f edge list \<Rightarrow> int list \<Rightarrow> surface \<times> (error + unit)" where
  "fill_scanlines fl surface color edges [] = (surface, Inr ())"
| "fill_scanlines fl surface color edges (y # ys) =
     (let scan = scan_edges fl edges y
      in if length scan mod 2 \<noteq> 0 then (surface, Inl AssertionError)
         else
           (case fill_spans fl surface color y edges scan of
              (surface, Inl e) \<Rightarrow> (surface, Inl e)
            | (surface, Inr edges) \<Rightarrow> fill_scanlines fl surface color edges ys))"

definition polygon ::
  "'f arith \<Rightarrow> surface \<Rightarrow> color \<Rightarrow> (int \<times> int) list \<Rightarrow> int \<Rightarrow> outcome" where
  "polygon fl surface color pointlist width =
     (if width > 0 then lines fl surface color True pointlist width
      else
        (case get_color color surface of
           Inl e \<Rightarrow> Some (surface, Inl e)
         | Inr color \<Rightarrow>
             if length pointlist < 3 then Some (surface, Inl ValueError)
             else
               let (x1, y1) = hd pointlist in
               (case build_edges fl (x1, y1) (tl pointlist @ [hd pointlist]) [] x1 x1 y1 y1 of
                  Inl e \<Rightarrow> Some (surface, Inl e)
                | Inr (edges, minx, maxx, miny, maxy) \<Rightarrow>
                    let clip = clip_rect surface;
                        miny = max miny (rect_y clip);
                        maxy = min (maxy + 1) (rect_y clip + rect_h clip)
                    in (case fill_scanlines fl surface color edges [miny..maxy - 1] of
                          (surface, Inl e) \<Rightarrow> Some (surface, Inl e)
                        | (surface, Inr _) \<Rightarrow>
                            Some (surface,
                                  Inr (Some \<lparr>rect_x = minx, rect_y = miny,
                                             rect_w = maxx - minx + 1,
                                             rect_h = maxy - miny + 1\<rparr>))))))"

text \<open>
  A surface as SDL keeps it: pixels of one byte or more, rows of at least the
  width, and a clip rectangle inside the surface.
\<close>

definition in_clip :: "surface \<Rightarrow> int \<Rightarrow> int \<Rightarrow> bool" where
  "in_clip s x y \<longleftrightarrow>
     rect_x (clip_rect s) \<le> x \<and> x < rect_x (clip_rect s) + rect_w (clip_rect s) \<and>
     rect_y (clip_rect s) \<le> y \<and> y < rect_y (clip_rect s) + rect_h (clip_rect s)"

definition wf_surface :: "surface \<Rightarrow> bool" where
  "wf_surface s \<longleftrightarrow>
     0 < BytesPerPixel s \<and> surf_w s \<le> pitch s div BytesPerPixel s \<and>
     0 \<le> rect_x (clip_rect s) \<and> 0 \<le> rect_y (clip_rect s) \<and>
     0 \<le> rect_w (clip_rect s) \<and> 0 \<le> rect_h (clip_rect s) \<and>
     rect_x (clip_rect s) + rect_w (clip_rect s) \<le> surf_w s \<and>
     rect_y (clip_rect s) + rect_h (clip_rect s) \<le> surf_h s"

definition pixel_at :: "surface \<Rightarrow> int \<Rightarrow> int \<Rightarrow> int" where
  "pixel_at s x y = pixels s (y * (pitch s div BytesPerPixel s) + x)"

subsection \<open>A small surface for concrete runs\<close>

text \<open>
  A surface of 4 by 4 pixels of one byte, every pixel \<open>0\<close>, with the whole surface
  as its clip rectangle.
\<close>

definition small_surface :: surface where
  "small_surface =
     \<lparr>surf_w = 4, surf_h = 4, pitch = 4, BytesPerPixel = 1,
      clip_rect = \<lparr>rect_x = 0, rect_y = 0, rect_w = 4, rect_h = 4\<rparr>,
      MapRGBA = (\<lambda>r g b a. 0), pixels = (\<lambda>i. 0)\<rparr>"


subsection \<open>Notions used in the statements\<close>

text \<open>A point on one of the four boundary lines of the clip box.\<close>

definition on_boundary :: "int \<Rightarrow> int \<Rightarrow> int \<Rightarrow> int \<Rightarrow> int \<Rightarrow> int \<Rightarrow> bool" where
  "on_boundary x y l r t b \<longleftrightarrow> x = l \<or> x = r \<or> y = t \<or> y = b"


section \<open>Basic facts\<close>

lemma or_raise_Inr: "or_raise m f = Inr v \<longleftrightarrow> (\<exists>u. m = Inr u \<and> f u = Inr v)"
  by (cases m) (simp_all add: or_raise_def)

lemma and_then_Inr: "and_then m f = Inr v \<longleftrightarrow> (\<exists>u. m = Inr u \<and> f u = Inr v)"
  by (cases m) (simp_all add: and_then_def)

lemma get_color_Mapped: "get_color (Mapped n) s = Inr n"
  by (simp add: get_color_def rgba_from_obj_def)

lemma get_color_NotAColor: "get_color NotAColor s = Inl InvalidColor"
  by (simp add: get_color_def rgba_from_obj_def)

text \<open>The outcode of a point, bit by bit.\<close>

lemma code_LEFT: "endpoint_code x y l r t b AND LEFT \<noteq> 0 \<longleftrightarrow> x < l"
  by (simp add: endpoint_code_def LEFT_def RIGHT_def TOP_def BOTTOM_def Let_def)

lemma code_RIGHT: "endpoint_code x y l r t b AND RIGHT \<noteq> 0 \<longleftrightarrow> x > r"
  by (simp add: endpoint_code_def LEFT_def RIGHT_def TOP_def BOTTOM_def Let_def)

lemma code_TOP: "endpoint_code x y l r t b AND TOP \<noteq> 0 \<longleftrightarrow> y < t"
  by (simp add: endpoint_code_def LEFT_def RIGHT_def TOP_def BOTTOM_def Let_def)

lemma code_BOTTOM: "endpoint_code x y l r t b AND BOTTOM \<noteq> 0 \<longleftrightarrow> y > b"
  by (simp add: endpoint_code_def LEFT_def RIGHT_def TOP_def BOTTOM_def Let_def)

lemma code_zero: "endpoint_code x y l r t b = 0 \<longleftrightarrow> l \<le> x \<and> x \<le> r \<and> t \<le> y \<and> y \<le> b"
  by (simp add: endpoint_code_def LEFT_def RIGHT_def TOP_def BOTTOM_def Let_def)

lemma code_share:
  "endpoint_code x1 y1 l r t b AND endpoint_code x2 y2 l r t b \<noteq> 0 \<longleftrightarrow>
     (x1 < l \<and> x2 < l) \<or> (x1 > r \<and> x2 > r) \<or> (y1 < t \<and> y2 < t) \<or> (y1 > b \<and> y2 > b)"
  by (simp add: endpoint_code_def LEFT_def RIGHT_def TOP_def BOTTOM_def Let_def)

lemmas code_simps = code_LEFT code_RIGHT code_TOP code_BOTTOM code_zero code_share


section \<open>Widths, colours and point counts\<close>

text \<open>
  C7: for every surface, colour, pair of endpoints and width below one, \<open>line\<close>
  returns \<open>None\<close> (nothing drawn) and leaves the surface, its pixel buffer
  included, as it was; so does \<open>lines\<close> with a width below one, on any point list
  and for either value of \<open>closed\<close>.
\<close>

theorem width_below_one_draws_nothing:
  "width < 1 \<Longrightarrow>
     line fl s c p q width = Some (s, Inr None) \<and>
     lines fl s c closed' pts width = Some (s, Inr None)"
  by (simp add: lines_def)

theorem width_below_one_draws_nothing_witness:
  "\<forall>fl :: 'f arith.
      line fl small_surface (RGB 1 2 3) (0, 0) (2, 1) 0 = Some (small_surface, Inr None) \<and>
        lines fl small_surface (RGB 1 2 3) True [(0, 0), (2, 1), (0, 3)] 0
          = Some (small_surface, Inr None)"
proof
  fix fl :: "'f arith"
  show "line fl small_surface (RGB 1 2 3) (0, 0) (2, 1) 0 = Some (small_surface, Inr None) \<and>
        lines fl small_surface (RGB 1 2 3) True [(0, 0), (2, 1), (0, 3)] 0
          = Some (small_surface, Inr None)"
    using width_below_one_draws_nothing [of 0 fl small_surface "RGB 1 2 3" "(0, 0)" "(2, 1)" True
            "[(0, 0), (2, 1), (0, 3)]"]
    by simp
qed

text \<open>
  C10: with a width below one, \<open>line\<close> returns \<open>None\<close> whatever the colour argument
  is, and leaves the surface as it was: the colour is not resolved, so that a
  colour argument of an invalid type raises nothing. With a width of one or more,
  a colour argument that \<open>_get_color\<close> refuses makes \<open>line\<close> raise that exception
  with the surface as it was, whatever the endpoints are; an object that is
  neither a tuple of channels nor an integer is refused.
\<close>

theorem line_width_check_precedes_color:
  "(width < 1 \<longrightarrow> line fl s c p q width = Some (s, Inr None)) \<and>
   (1 \<le> width \<longrightarrow> get_color c s = Inl e \<longrightarrow> line fl s c p q width = Some (s, Inl e)) \<and>
   get_color NotAColor s = Inl InvalidColor"
  by (simp add: get_color_NotAColor)

theorem line_width_check_precedes_color_witness:
  "\<forall>fl :: 'f arith.
      line fl small_surface NotAColor (0, 0) (2, 1) 0 = Some (small_surface, Inr None) \<and>
        line fl small_surface NotAColor (0, 0) (2, 1) 1 = Some (small_surface, Inl InvalidColor)"
proof
  fix fl :: "'f arith"
  show "line fl small_surface NotAColor (0, 0) (2, 1) 0 = Some (small_surface, Inr None) \<and>
        line fl small_surface NotAColor (0, 0) (2, 1) 1 = Some (small_surface, Inl InvalidColor)"
    using line_width_check_precedes_color [of 0 fl small_surface NotAColor "(0, 0)" "(2, 1)" InvalidColor]
          line_width_check_precedes_color [of 1 fl small_surface NotAColor "(0, 0)" "(2, 1)" InvalidColor]
    by simp
qed

text \<open>
  C5: for every surface, colour, point list and width above zero, \<open>polygon\<close> is the
  call of \<open>lines\<close> with \<open>closed\<close> true on the same arguments: the two leave the same
  surface (the same pixel buffer) and the same result, and no fill runs.
\<close>

theorem polygon_outline_is_closed_lines:
  "0 < width \<Longrightarrow> polygon fl s c pts width = lines fl s c True pts width"
  by (simp add: polygon_def)

theorem polygon_outline_is_closed_lines_witness:
  "\<forall>fl :: 'f arith.
      polygon fl small_surface (Mapped 7) [(0, 0), (2, 1), (0, 3)] 2
          = lines fl small_surface (Mapped 7) True [(0, 0), (2, 1), (0, 3)] 2"
proof
  fix fl :: "'f arith"
  show "polygon fl small_surface (Mapped 7) [(0, 0), (2, 1), (0, 3)] 2
          = lines fl small_surface (Mapped 7) True [(0, 0), (2, 1), (0, 3)] 2"
    using polygon_outline_is_closed_lines [of 2 fl small_surface "Mapped 7" "[(0, 0), (2, 1), (0, 3)]"]
    by simp
qed




section \<open>Return values\<close>

text \<open>
  C2 does not hold of \<open>line\<close>: the thin line from \<open>(0, 0)\<close> to \<open>(2, 1)\<close> on the small
  surface stores the colour in pixel \<open>(0, 0)\<close>, which held another value, and
  returns \<open>None\<close>, the value it also returns when nothing is drawn. The source
  marks the place: \<open>return None # XXX return clipped rect\<close>, under a docstring that
  promises the affected bounding box.
\<close>

theorem line_draws_and_returns_none:
  "\<forall>fl. \<exists>s'. line fl small_surface (Mapped 7) (0, 0) (2, 1) 1 = Some (s', Inr None) \<and>
             pixels small_surface 0 = 0 \<and> pixels s' 0 = 7"
  by (simp add: get_color_Mapped line_thin_def small_surface_def
        clip_line.simps endpoint_code_def Let_def)


end
